theory Spec2Isabelle
  imports Complex_Main "HOL-Library.Word" "HOL-Library.Sublist"
begin

chapter \<open>The model\<close>

section \<open>JavaScript strings\<close>

text \<open>
  A JavaScript string is a sequence of UTF-16 code units, and \<open>s.length\<close> counts code
  units. String literals of the source are ASCII and are written with \<open>lit\<close>.
\<close>

type_synonym js_string = "16 word list"

definition lit :: "string \<Rightarrow> js_string" where
  "lit s = map of_char s"

text \<open>Truthiness of an optional string: \<open>undefined\<close> and \<open>""\<close> are falsy.\<close>

definition truthy :: "js_string option \<Rightarrow> bool" where
  "truthy v = (case v of None \<Rightarrow> False | Some s \<Rightarrow> s \<noteq> [])"

text \<open>\<open>v || d\<close> on an optional string.\<close>

definition or_default :: "js_string option \<Rightarrow> js_string \<Rightarrow> js_string" where
  "or_default v d = (case v of None \<Rightarrow> d | Some s \<Rightarrow> if s = [] then d else s)"

definition startsWith :: "js_string \<Rightarrow> js_string \<Rightarrow> bool" where
  "startsWith s p = (take (length p) s = p)"

text \<open>\<open>String.prototype.includes\<close>: the keyword occurs at some position.\<close>

fun includes_str :: "js_string \<Rightarrow> js_string \<Rightarrow> bool" where
  "includes_str [] k = (k = [])"
| "includes_str (c # cs) k = (startsWith (c # cs) k \<or> includes_str cs k)"

text \<open>
  The code units matched by \<open>\s\<close> and stripped by \<open>trim()\<close>: ECMAScript's WhiteSpace
  (TAB, VT, FF, ZWNBSP and the space separators) and LineTerminator (LF, CR, LS, PS).
\<close>

definition isWhiteSpace :: "16 word \<Rightarrow> bool" where
  "isWhiteSpace c =
     (c = 0x0009 \<or> c = 0x000A \<or> c = 0x000B \<or> c = 0x000C \<or> c = 0x000D \<or> c = 0x0020 \<or>
      c = 0x00A0 \<or> c = 0x1680 \<or> (0x2000 \<le> c \<and> c \<le> 0x200A) \<or> c = 0x2028 \<or>
      c = 0x2029 \<or> c = 0x202F \<or> c = 0x205F \<or> c = 0x3000 \<or> c = 0xFEFF)"

definition trim :: "js_string \<Rightarrow> js_string" where
  "trim s = rev (dropWhile isWhiteSpace (rev (dropWhile isWhiteSpace s)))"

text \<open>
  \<open>s.split(/\s+/)\<close>: the pieces between maximal runs of white space. The first
  argument is the piece read so far. A leading or trailing run leaves an empty piece,
  and the empty string splits into one empty piece.
\<close>

function split_ws :: "js_string \<Rightarrow> js_string \<Rightarrow> js_string list" where
  "split_ws cur [] = [cur]"
| "split_ws cur (c # cs) =
     (if isWhiteSpace c then cur # split_ws [] (dropWhile isWhiteSpace cs)
      else split_ws (cur @ [c]) cs)"
  by pat_completeness auto
termination
  by (relation "measure (\<lambda>(cur, s). length s)")
     (auto simp: length_dropWhile_le less_Suc_eq_le)

text \<open>\<open>xs.filter(Boolean)\<close> on an array of strings keeps the non-empty ones.\<close>

definition filter_Boolean :: "js_string list \<Rightarrow> js_string list" where
  "filter_Boolean xs = filter (\<lambda>w. w \<noteq> []) xs"

text \<open>
  \<open>s.split(sep)\<close> for a one-character separator: a cut at every occurrence. With the
  white-space test as separator this is the reading of "splitting on whitespace" that the
  word count is compared with.
\<close>

fun split_at :: "(16 word \<Rightarrow> bool) \<Rightarrow> js_string \<Rightarrow> js_string \<Rightarrow> js_string list" where
  "split_at sep cur [] = [cur]"
| "split_at sep cur (c # cs) =
     (if sep c then cur # split_at sep [] cs else split_at sep (cur @ [c]) cs)"

definition whitespace_words :: "js_string \<Rightarrow> js_string list" where
  "whitespace_words s = filter (\<lambda>w. w \<noteq> []) (split_at isWhiteSpace [] s)"

text \<open>A number in a template literal: its decimal digits.\<close>

fun decimal :: "nat \<Rightarrow> js_string" where
  "decimal n =
     (if n < 10 then [of_nat (48 + n)] else decimal (n div 10) @ [of_nat (48 + n mod 10)])"

declare decimal.simps [simp del]

section \<open>The OCR request handler (edge function \<open>ocr-process\<close>)\<close>

datatype OCRMode = Printed | Handwriting | Mixed

text \<open>
  \<open>OcrProcessBody\<close> is what the client puts together; \<open>OCRRequest\<close> is that body with
  \<open>userAccessToken\<close> added. A field that is absent from the JSON is \<open>None\<close>; a
  field that is present has the type that the interface declares.
\<close>

record OcrProcessBody =
  imageBase64 :: "js_string option"
  fileName :: "js_string option"
  fileType :: "js_string option"
  mode :: "OCRMode option"

record OCRRequest = OcrProcessBody +
  userAccessToken :: "js_string option"

record OCRResponse =
  extracted_text :: js_string
  processing_time_ms :: int
  word_count :: nat
  character_count :: nat
  confidence_note :: js_string

text \<open>
  An HTTP request as the handler reads it: the method, and what \<open>await req.json()\<close>
  gives, either the payload or the message of the error it throws.
\<close>

record request =
  req_method :: js_string
  req_json :: "js_string + OCRRequest"

text \<open>
  The JSON bodies the handler writes: none (CORS preflight), \<open>{error}\<close> with
  \<open>processing_time_ms\<close> in the catch block only, or the result.
\<close>

datatype response_body =
    NoBody
  | ErrorJson js_string "int option"
  | ResultJson OCRResponse

record response =
  status :: nat
  body :: response_body

subsection \<open>What the handler calls\<close>

text \<open>
  \<open>createClient(...)\<close> followed by \<open>auth.getUser(token)\<close>: it throws, or it gives
  \<open>{data: {user}, error}\<close> (the user by its id).
\<close>

datatype auth_outcome =
    AuthThrows js_string
  | AuthResult "js_string option" "js_string option"

text \<open>
  The system and user prompt of each mode are fixed texts of the source; the model
  keeps which pair was chosen.
\<close>

datatype prompt_pair = PrintedPrompts | HandwritingPrompts | MixedPrompts

record gateway_request =
  authorization :: js_string
  model :: js_string
  prompts :: prompt_pair
  image_url :: js_string
  max_tokens :: nat

text \<open>
  The value of \<open>data.choices?.[0]?.message?.content\<close> in the gateway's JSON:
  \<open>undefined\<close>, a string, or a truthy value that is not a string.
\<close>

datatype js_content = Undefined | Str js_string | NotAString

text \<open>
  \<open>await response.json()\<close> and the read of \<open>data.choices\<close> throw (a body that is not
  JSON, or is \<open>null\<close>), or give the content.
\<close>

datatype gateway_json = JsonThrows js_string | Json js_content

text \<open>
  \<open>fetch\<close> rejects, or resolves to a response with a status and a body. The body is
  taken as received whole: reading it (\<open>response.text()\<close>) does not fail.
\<close>

datatype fetch_outcome =
    FetchRejects js_string
  | FetchResponse nat gateway_json

text \<open>
  The surroundings of one handler run: the environment variable, the two services, and
  the two readings of \<open>Date.now()\<close> (at entry, and when the response is built).
\<close>

record env =
  LOVABLE_API_KEY :: "js_string option"
  getUser :: "js_string \<Rightarrow> auth_outcome"
  fetch_gateway :: "gateway_request \<Rightarrow> fetch_outcome"
  startTime :: int
  endTime :: int

datatype external_call = AuthLookup js_string | GatewayFetch gateway_request

subsection \<open>The handler\<close>

definition json_response :: "nat \<Rightarrow> string \<Rightarrow> response" where
  "json_response st msg = \<lparr>status = st, body = ErrorJson (lit msg) None\<rparr>"

definition MAX_SIZE_BYTES :: rat where
  "MAX_SIZE_BYTES = 10 * 1024 * 1024"

definition estimatedSize :: "js_string \<Rightarrow> rat" where
  "estimatedSize image64 = (of_nat (length image64) * 3) / 4"

definition allowedTypes :: "js_string list" where
  "allowedTypes = map lit [''image/png'', ''image/jpeg'', ''image/jpg'', ''image/webp'',
     ''image/gif'', ''application/pdf'']"

text \<open>\<open>fileType && !allowedTypes.includes(fileType.toLowerCase())\<close>\<close>

definition invalid_fileType :: "(js_string \<Rightarrow> js_string) \<Rightarrow> js_string option \<Rightarrow> bool" where
  "invalid_fileType toLowerCase ft =
     (case ft of
        None \<Rightarrow> False
      | Some t \<Rightarrow> t \<noteq> [] \<and> toLowerCase t \<notin> set allowedTypes)"

definition response_ok :: "nat \<Rightarrow> bool" where
  "response_ok st = (200 \<le> st \<and> st \<le> 299)"

definition select_prompts :: "OCRMode \<Rightarrow> prompt_pair" where
  "select_prompts m =
     (case m of Printed \<Rightarrow> PrintedPrompts | Handwriting \<Rightarrow> HandwritingPrompts
      | Mixed \<Rightarrow> MixedPrompts)"

definition build_imageUrl :: "js_string \<Rightarrow> js_string option \<Rightarrow> js_string" where
  "build_imageUrl image64 ft =
     (if \<not> startsWith image64 (lit ''data:'')
      then lit ''data:'' @ or_default ft (lit ''image/png'') @ lit '';base64,'' @ image64
      else image64)"

definition build_result :: "env \<Rightarrow> OCRMode \<Rightarrow> js_string \<Rightarrow> OCRResponse" where
  "build_result e m extractedText =
     (let processingTime = endTime e - startTime e;
          words = filter_Boolean (split_ws [] extractedText)
      in \<lparr>extracted_text = extractedText,
          processing_time_ms = processingTime,
          word_count = length words,
          character_count = length extractedText,
          confidence_note =
            (if m = Handwriting
             then lit ''Handwriting recognition - accuracy may vary based on writing clarity''
             else lit ''High confidence OCR extraction'')\<rparr>)"

text \<open>
  Lines 223 to 267 of the handler: what it makes of the gateway's answer. \<open>Inl\<close> is the
  message of a thrown error, \<open>Inr\<close> a returned response.
\<close>

definition on_gateway :: "env \<Rightarrow> OCRMode \<Rightarrow> fetch_outcome \<Rightarrow> js_string + response" where
  "on_gateway e m out =
     (case out of
        FetchRejects msg \<Rightarrow> Inl msg
      | FetchResponse st js \<Rightarrow>
          if \<not> response_ok st then
            (if st = 429
             then Inr (json_response 429 ''Rate limit exceeded. Please try again in a moment.'')
             else if st = 402
             then Inr (json_response 402 ''Usage limit reached. Please add credits to continue.'')
             else Inl (lit ''AI Gateway error: '' @ decimal st))
          else
            (case js of
               JsonThrows msg \<Rightarrow> Inl msg
             | Json NotAString \<Rightarrow> Inl (lit ''extractedText.trim is not a function'')
             | Json content \<Rightarrow>
                 (let extractedText = (case content of Str s \<Rightarrow> s | _ \<Rightarrow> [])
                  in if trim extractedText = []
                     then Inl (lit ''No text could be extracted from the image'')
                     else Inr \<lparr>status = 200,
                               body = ResultJson (build_result e m extractedText)\<rparr>)))"

text \<open>
  The \<open>try\<close> block after the payload is read. The second component lists the external
  calls in the order they are made. \<open>String.prototype.toLowerCase\<close> is a parameter:
  nothing below depends on which mapping it is. Behind a passed truthiness test,
  \<open>or_default v []\<close> is the string that \<open>v\<close> holds.
\<close>

definition handle_payload ::
  "(js_string \<Rightarrow> js_string) \<Rightarrow> env \<Rightarrow> OCRRequest
     \<Rightarrow> (js_string + response) \<times> external_call list" where
  "handle_payload toLowerCase e payload =
     (if \<not> truthy (userAccessToken payload)
      then (Inr (json_response 401 ''Authentication required''), [])
      else
        let token = or_default (userAccessToken payload) [] in
        (case getUser e token of
           AuthThrows msg \<Rightarrow> (Inl msg, [AuthLookup token])
         | AuthResult user authError \<Rightarrow>
             if authError \<noteq> None \<or> user = None
             then (Inr (json_response 401 ''Unauthorized''), [AuthLookup token])
             else if \<not> truthy (LOVABLE_API_KEY e)
             then (Inl (lit ''LOVABLE_API_KEY is not configured''), [AuthLookup token])
             else if \<not> truthy (imageBase64 payload)
             then (Inr (json_response 400 ''No image data provided''), [AuthLookup token])
             else
               let image64 = or_default (imageBase64 payload) [];
                   m = (case mode payload of None \<Rightarrow> Mixed | Some m' \<Rightarrow> m')
               in if estimatedSize image64 > MAX_SIZE_BYTES
                  then (Inr (json_response 400 ''File too large. Maximum size is 10MB''),
                        [AuthLookup token])
                  else if invalid_fileType toLowerCase (fileType payload)
                  then (Inr (json_response 400
                               ''Invalid file type. Allowed: PNG, JPEG, WebP, GIF, PDF''),
                        [AuthLookup token])
                  else
                    let call = \<lparr>authorization =
                                   lit ''Bearer '' @ or_default (LOVABLE_API_KEY e) [],
                                 model = lit ''google/gemini-2.5-flash'',
                                 prompts = select_prompts m,
                                 image_url = build_imageUrl image64 (fileType payload),
                                 max_tokens = 4096\<rparr>
                    in (on_gateway e m (fetch_gateway e call),
                        [AuthLookup token, GatewayFetch call])))"

text \<open>
  The \<open>catch\<close> block: every error thrown in the \<open>try\<close> block becomes a 500 that
  carries its message and the elapsed time.
\<close>

definition catch_error :: "env \<Rightarrow> js_string + response \<Rightarrow> response" where
  "catch_error e r =
     (case r of
        Inl msg \<Rightarrow> \<lparr>status = 500, body = ErrorJson msg (Some (endTime e - startTime e))\<rparr>
      | Inr resp \<Rightarrow> resp)"

text \<open>The whole handler: the preflight answer, then the \<open>try\<close> and \<open>catch\<close> blocks.\<close>

definition serve ::
  "(js_string \<Rightarrow> js_string) \<Rightarrow> env \<Rightarrow> request \<Rightarrow> response \<times> external_call list" where
  "serve toLowerCase e req =
     (if req_method req = lit ''OPTIONS'' then (\<lparr>status = 200, body = NoBody\<rparr>, [])
      else
        let (r, calls) =
              (case req_json req of
                 Inl msg \<Rightarrow> (Inl msg, [])
               | Inr payload \<Rightarrow> handle_payload toLowerCase e payload)
        in (catch_error e r, calls))"

text \<open>The two counts of a result agree with its text.\<close>

definition counts_match :: "OCRResponse \<Rightarrow> bool" where
  "counts_match r =
     (word_count r = length (whitespace_words (extracted_text r))
      \<and> character_count r = length (extracted_text r))"

text \<open>
  An OCR request as the interface has it: an HTTP POST whose body is the JSON payload.
\<close>

definition post :: "OCRRequest \<Rightarrow> request" where
  "post p = \<lparr>req_method = lit ''POST'', req_json = Inr p\<rparr>"

section \<open>The client: \<open>ocrEngine\<close>\<close>

text \<open>
  A browser \<open>File\<close>: its name, its MIME type and its bytes (\<open>file.size\<close> is their
  number).
\<close>

record File =
  name :: js_string
  ftype :: js_string
  content :: "8 word list"

subsection \<open>\<open>FileReader.readAsDataURL\<close>\<close>

definition base64_alphabet :: js_string where
  "base64_alphabet = lit ''ABCDEFGHIJKLMNOPQRSTUVWXYZabcdefghijklmnopqrstuvwxyz0123456789+/''"

definition base64_digit :: "nat \<Rightarrow> 16 word" where
  "base64_digit n = base64_alphabet ! (n mod 64)"

text \<open>Base64 (RFC 4648): three bytes give four digits, the rest is padded with \<open>=\<close>.\<close>

fun base64 :: "8 word list \<Rightarrow> js_string" where
  "base64 [] = []"
| "base64 [a] =
     (let x = unat a
      in [base64_digit (x div 4), base64_digit (x mod 4 * 16), 0x3D, 0x3D])"
| "base64 [a, b] =
     (let x = unat a; y = unat b
      in [base64_digit (x div 4), base64_digit (x mod 4 * 16 + y div 16),
          base64_digit (y mod 16 * 4), 0x3D])"
| "base64 (a # b # c # rest) =
     (let x = unat a; y = unat b; z = unat c
      in [base64_digit (x div 4), base64_digit (x mod 4 * 16 + y div 16),
          base64_digit (y mod 16 * 4 + z div 64), base64_digit (z mod 64)] @ base64 rest)"

text \<open>
  The data URL of a file: \<open>data:<type>;base64,<digits>\<close>. For a file without a type
  browsers write \<open>application/octet-stream\<close>.
\<close>

definition readAsDataURL :: "File \<Rightarrow> js_string" where
  "readAsDataURL f =
     lit ''data:'' @ (if ftype f = [] then lit ''application/octet-stream'' else ftype f)
       @ lit '';base64,'' @ base64 (content f)"

text \<open>
  \<open>fileToBase64\<close>: \<open>result.split(",")[1]\<close>, which is \<open>undefined\<close> when the data URL has
  no comma. The file is taken to be readable (\<open>reader.onerror\<close> does not fire).
\<close>

definition fileToBase64 :: "File \<Rightarrow> js_string option" where
  "fileToBase64 f =
     (case split_at (\<lambda>c. c = 0x2C) [] (readAsDataURL f) of
        _ # b64 # _ \<Rightarrow> Some b64
      | _ \<Rightarrow> None)"

subsection \<open>\<open>invokeOcrProcess\<close>\<close>

text \<open>
  What \<open>invokeOcrProcess\<close> resolves to: \<open>{data: null, error}\<close> or \<open>{data, error: null}\<close>.
\<close>

datatype invoke_result = InvokeError js_string | InvokeData response_body

text \<open>
  The session is given by its access token. \<open>edge\<close> is the POST to
  \<open>/functions/v1/ocr-process\<close>: it rejects, or brings the handler's response.
  \<open>response.json()\<close> throws on a response without a body. Of the two versions of this
  function in the sources this is the one that calls \<open>fetch\<close> itself; the one that goes
  through \<open>supabase.functions.invoke\<close> resolves to the same two shapes.
\<close>

definition invokeOcrProcess ::
  "js_string option \<Rightarrow> (OCRRequest \<Rightarrow> js_string + response) \<Rightarrow> OcrProcessBody
     \<Rightarrow> js_string + invoke_result" where
  "invokeOcrProcess session edge b =
     (if \<not> truthy session
      then Inl (lit ''You must be logged in to use OCR processing'')
      else
        (case edge \<lparr>imageBase64 = imageBase64 b, fileName = fileName b,
                    fileType = fileType b, mode = mode b, userAccessToken = session\<rparr> of
           Inl msg \<Rightarrow> Inl msg
         | Inr resp \<Rightarrow>
             (case body resp of
                NoBody \<Rightarrow> Inl (lit ''Unexpected end of JSON input'')
              | data \<Rightarrow>
                  if \<not> response_ok (status resp)
                  then Inr (InvokeError
                         (or_default (case data of ErrorJson msg _ \<Rightarrow> Some msg | _ \<Rightarrow> None)
                            (lit ''HTTP '' @ decimal (status resp))))
                  else Inr (InvokeData data))))"

subsection \<open>\<open>processImage\<close>, \<open>processPDF\<close>, \<open>processDocument\<close>\<close>

text \<open>
  The tail shared by \<open>processImage\<close> and \<open>processPDF\<close>, which differ in the fallback
  message only. \<open>data as OCRResult\<close> is an unchecked cast: what is returned is the JSON
  that came.
\<close>

definition unwrap_invoke :: "string \<Rightarrow> js_string + invoke_result \<Rightarrow> js_string + response_body" where
  "unwrap_invoke fallback r =
     (case r of
        Inl msg \<Rightarrow> Inl msg
      | Inr (InvokeError msg) \<Rightarrow> Inl (or_default (Some msg) (lit fallback))
      | Inr (InvokeData data) \<Rightarrow>
          (case data of
             ErrorJson msg _ \<Rightarrow> if msg \<noteq> [] then Inl msg else Inr data
           | _ \<Rightarrow> Inr data))"

definition processImage ::
  "js_string option \<Rightarrow> (OCRRequest \<Rightarrow> js_string + response) \<Rightarrow> File \<Rightarrow> OCRMode
     \<Rightarrow> js_string + response_body" where
  "processImage session edge f m =
     (let b64 = fileToBase64 f
      in unwrap_invoke ''OCR processing failed''
           (invokeOcrProcess session edge
              \<lparr>imageBase64 = b64, fileName = Some (name f), fileType = Some (ftype f),
               mode = Some m\<rparr>))"

definition processPDF ::
  "js_string option \<Rightarrow> (OCRRequest \<Rightarrow> js_string + response) \<Rightarrow> File \<Rightarrow> OCRMode
     \<Rightarrow> js_string + response_body" where
  "processPDF session edge f m =
     (let b64 = fileToBase64 f
      in unwrap_invoke ''PDF OCR processing failed''
           (invokeOcrProcess session edge
              \<lparr>imageBase64 = b64, fileName = Some (name f), fileType = Some (ftype f),
               mode = Some m\<rparr>))"

definition handwritingKeywords :: "js_string list" where
  "handwritingKeywords = map lit [''handwritten'', ''handwriting'', ''notes'', ''notebook'',
     ''manuscript'', ''letter'', ''diary'', ''journal'']"

definition isLikelyHandwritten :: "(js_string \<Rightarrow> js_string) \<Rightarrow> js_string \<Rightarrow> bool" where
  "isLikelyHandwritten toLowerCase fileName' =
     (let lowerName = toLowerCase fileName'
      in list_ex (\<lambda>keyword. includes_str lowerName keyword) handwritingKeywords)"

text \<open>\<open>mode || (isLikelyHandwritten(file.name) ? "handwriting" : "mixed")\<close>\<close>

definition detectedMode :: "(js_string \<Rightarrow> js_string) \<Rightarrow> File \<Rightarrow> OCRMode option \<Rightarrow> OCRMode" where
  "detectedMode toLowerCase f mode' =
     (case mode' of
        Some m \<Rightarrow> m
      | None \<Rightarrow> if isLikelyHandwritten toLowerCase (name f) then Handwriting else Mixed)"

definition processDocument ::
  "(js_string \<Rightarrow> js_string) \<Rightarrow> js_string option \<Rightarrow> (OCRRequest \<Rightarrow> js_string + response)
     \<Rightarrow> File \<Rightarrow> OCRMode option \<Rightarrow> js_string + response_body" where
  "processDocument toLowerCase session edge f mode' =
     (let detected = detectedMode toLowerCase f mode'
      in if ftype f = lit ''application/pdf'' then processPDF session edge f detected
         else if startsWith (ftype f) (lit ''image/'') then processImage session edge f detected
         else Inl (lit ''Unsupported file type: '' @ ftype f))"

section \<open>The page: \<open>Index\<close>\<close>

text \<open>
  The component's state, one field for each \<open>useState\<close>. \<open>status\<close> is named
  \<open>page_status\<close> here. A text read from a result is \<open>undefined\<close> when the result
  does not have the field.
\<close>

datatype ProcessingStatus =
  StatusIdle | StatusUploading | StatusProcessing | StatusComplete | StatusError

record HistoryItem =
  item_id :: js_string
  item_fileName :: js_string
  item_fileType :: js_string
  item_extractedText :: "js_string option"
  processedAt :: int

record processing_stats =
  time :: "int option"
  words :: "nat option"
  chars :: "nat option"

record page =
  page_status :: ProcessingStatus
  progress :: nat
  extractedText :: "js_string option"
  currentFileName :: js_string
  history :: "HistoryItem list"
  selectedHistoryId :: "js_string option"
  processingStats :: "processing_stats option"

text \<open>The values of \<open>documents.status\<close> that the page writes.\<close>

datatype doc_status = Processing | Completed | Failed

text \<open>
  The calls the page makes on the table store:
  \<^item> \<open>InsertDocument user_id file_name file_type file_size status\<close>
  \<^item> \<open>InsertOcrResult document_id user_id extracted_text word_count character_count
    processing_time_ms\<close>
  \<^item> \<open>UpdateDocumentStatus id status\<close>, the update \<open>.eq("id", id)\<close>
  \<^item> \<open>DeleteDocument id\<close>, the delete \<open>.eq("id", id)\<close>
\<close>

datatype db_call =
    InsertDocument js_string js_string js_string nat doc_status
  | InsertOcrResult js_string js_string "js_string option" "nat option" "nat option" "int option"
  | UpdateDocumentStatus js_string doc_status
  | DeleteDocument js_string

text \<open>
  What surrounds one run of \<open>handleOCRProcessing\<close>: the session's access token, the
  edge function, the answer of the \<open>documents\<close> insert (\<open>docError\<close>, or the id of
  \<open>docData\<close>), and \<open>new Date()\<close>. The answers of the \<open>ocr_results\<close> insert and of the
  status updates are not here: the code ignores them.
\<close>

record browser =
  access_token :: "js_string option"
  edge_function :: "OCRRequest \<Rightarrow> js_string + response"
  documents_insert :: "js_string + js_string"
  today :: int

text \<open>Fields of \<open>result\<close>, read after the cast to \<open>OCRResult\<close>.\<close>

definition result_field :: "(OCRResponse \<Rightarrow> 'a) \<Rightarrow> response_body \<Rightarrow> 'a option" where
  "result_field field data = (case data of ResultJson r \<Rightarrow> Some (field r) | _ \<Rightarrow> None)"

text \<open>
  \<open>handleOCRProcessing\<close>: the state when the run ends, and the calls on the table store
  in their order. Toasts, console output and the steps of the progress bar in between
  are left out.
\<close>

definition handleOCRProcessing ::
  "(js_string \<Rightarrow> js_string) \<Rightarrow> browser \<Rightarrow> js_string option \<Rightarrow> File \<Rightarrow> OCRMode \<Rightarrow> page
     \<Rightarrow> page \<times> db_call list" where
  "handleOCRProcessing toLowerCase b user f m st =
     (case user of
        None \<Rightarrow> (st, [])
      | Some user_id \<Rightarrow>
          let st1 = st\<lparr>currentFileName := name f, page_status := StatusUploading,
                       progress := 30, extractedText := Some [],
                       selectedHistoryId := None, processingStats := None\<rparr>;
              insert = InsertDocument user_id (name f) (ftype f) (length (content f)) Processing
          in (case documents_insert b of
                Inl docError \<Rightarrow> (st1\<lparr>page_status := StatusError\<rparr>, [insert])
              | Inr doc_id \<Rightarrow>
                  (case processDocument toLowerCase (access_token b) (edge_function b) f (Some m) of
                     Inr result \<Rightarrow>
                       let newItem = \<lparr>item_id = doc_id, item_fileName = name f,
                                      item_fileType = ftype f,
                                      item_extractedText = result_field extracted_text result,
                                      processedAt = today b\<rparr>
                       in (st1\<lparr>progress := 100,
                                extractedText := result_field extracted_text result,
                                processingStats :=
                                  Some \<lparr>time = result_field processing_time_ms result,
                                        words = result_field word_count result,
                                        chars = result_field character_count result\<rparr>,
                                page_status := StatusComplete,
                                history := newItem # take 9 (history st1),
                                selectedHistoryId := Some doc_id\<rparr>,
                           [insert,
                            InsertOcrResult doc_id user_id
                              (result_field extracted_text result)
                              (result_field word_count result)
                              (result_field character_count result)
                              (result_field processing_time_ms result),
                            UpdateDocumentStatus doc_id Completed])
                   | Inl msg \<Rightarrow>
                       (st1\<lparr>page_status := StatusError, progress := 40\<rparr>,
                        [insert, UpdateDocumentStatus doc_id Failed]))))"

text \<open>
  \<open>handleHistoryDelete\<close>, given the \<open>error\<close> of the delete call (\<open>None\<close> when it
  succeeds).
\<close>

definition handleHistoryDelete :: "js_string option \<Rightarrow> js_string \<Rightarrow> page \<Rightarrow> page \<times> db_call list" where
  "handleHistoryDelete error' ident st =
     (case error' of
        Some _ \<Rightarrow> (st, [DeleteDocument ident])
      | None \<Rightarrow>
          let st1 = st\<lparr>history := filter (\<lambda>item. item_id item \<noteq> ident) (history st)\<rparr>
          in (if selectedHistoryId st = Some ident
              then st1\<lparr>extractedText := Some [], page_status := StatusIdle,
                       selectedHistoryId := None\<rparr>
              else st1,
              [DeleteDocument ident]))"

text \<open>The status updates among the calls of a run: which document, to which status.\<close>

fun status_updates :: "db_call list \<Rightarrow> (js_string \<times> doc_status) list" where
  "status_updates [] = []"
| "status_updates (UpdateDocumentStatus d s # cs) = (d, s) # status_updates cs"
| "status_updates (_ # cs) = status_updates cs"

subsection \<open>The table store\<close>

text \<open>
  Modelled from the spec: the declaration of the tables \<open>documents\<close> and \<open>ocr_results\<close>
  (the migration with their columns and the foreign key) is not among the sources. The
  spec gives the columns and says that a document is "deleted on explicit user action
  (cascading to its result)".
\<close>

record document_row =
  row_id :: js_string
  row_user_id :: js_string
  row_file_name :: js_string
  row_file_type :: js_string
  row_file_size :: nat
  row_status :: doc_status

record ocr_result_row =
  document_id :: js_string
  result_user_id :: js_string
  result_text :: js_string

record database =
  documents :: "document_row list"
  ocr_results :: "ocr_result_row list"

text \<open>
  Modelled from the spec: deleting a document removes its row and, by the cascade, every
  OCR result that belongs to it.
\<close>

definition delete_document :: "js_string \<Rightarrow> database \<Rightarrow> database" where
  "delete_document ident db =
     db\<lparr>documents := filter (\<lambda>d. row_id d \<noteq> ident) (documents db),
        ocr_results := filter (\<lambda>r. document_id r \<noteq> ident) (ocr_results db)\<rparr>"

text \<open>
  Modelled from the spec: the store's side of the delete call. It fails with an error
  and changes nothing, or it deletes.
\<close>

definition documents_delete :: "js_string option \<Rightarrow> js_string \<Rightarrow> database \<Rightarrow> database" where
  "documents_delete error' ident db =
     (case error' of Some _ \<Rightarrow> db | None \<Rightarrow> delete_document ident db)"

section \<open>Sample values\<close>

text \<open>\<open>toLowerCase\<close> as it acts on ASCII text; used to run the model on examples.\<close>

definition ascii_toLowerCase :: "js_string \<Rightarrow> js_string" where
  "ascii_toLowerCase s = map (\<lambda>c. if 0x41 \<le> c \<and> c \<le> 0x5A then c + 0x20 else c) s"

text \<open>
  A deployment with the gateway key set, an auth service that knows the token
  \<open>jwt\<close> only, and a gateway that answers every call with \<open>out\<close>.
\<close>

definition sample_env :: "fetch_outcome \<Rightarrow> env" where
  "sample_env out =
     \<lparr>LOVABLE_API_KEY = Some (lit ''k1''),
      getUser = (\<lambda>t. if t = lit ''jwt'' then AuthResult (Some (lit ''u1'')) None
                       else AuthResult None (Some (lit ''invalid JWT''))),
      fetch_gateway = (\<lambda>_. out),
      startTime = 1000,
      endTime = 1850\<rparr>"

definition sample_payload :: OCRRequest where
  "sample_payload =
     \<lparr>imageBase64 = Some (lit ''iVBORw0KGgo=''), fileName = Some (lit ''scan.png''),
      fileType = Some (lit ''image/png''), mode = Some Printed,
      userAccessToken = Some (lit ''jwt'')\<rparr>"

text \<open>A gateway that cannot be reached.\<close>

definition gateway_down :: fetch_outcome where
  "gateway_down = FetchRejects (lit ''error sending request'')"

text \<open>The call that \<open>sample_payload\<close> leads to.\<close>

definition sample_call :: gateway_request where
  "sample_call =
     \<lparr>authorization = lit ''Bearer k1'', model = lit ''google/gemini-2.5-flash'',
      prompts = PrintedPrompts, image_url = lit ''data:image/png;base64,iVBORw0KGgo='',
      max_tokens = 4096\<rparr>"

text \<open>
  A payload of 13981014 code units, the shortest whose estimate exceeds the limit, with
  a file type to choose.
\<close>

definition oversized_payload :: "js_string option \<Rightarrow> OCRRequest" where
  "oversized_payload ft =
     \<lparr>imageBase64 = Some (replicate 13981014 0x41), fileName = Some (lit ''big.png''),
      fileType = ft, mode = None, userAccessToken = Some (lit ''jwt'')\<rparr>"

text \<open>A PNG file of four bytes whose name has the keyword \<open>notes\<close>.\<close>

definition sample_file :: File where
  "sample_file = \<lparr>name = lit ''Lecture_Notes.png'', ftype = lit ''image/png'',
                   content = [0x89, 0x50, 0x4E, 0x47]\<rparr>"

text \<open>
  The edge function reached over a working network: the handler itself, in the
  environment \<open>e\<close>. The sample browser has a session, and its insert gives the id
  \<open>doc-1\<close>.
\<close>

definition deployed_edge :: "env \<Rightarrow> OCRRequest \<Rightarrow> js_string + response" where
  "deployed_edge e req = Inr (fst (serve ascii_toLowerCase e (post req)))"

definition sample_browser :: "fetch_outcome \<Rightarrow> browser" where
  "sample_browser out =
     \<lparr>access_token = Some (lit ''jwt''), edge_function = deployed_edge (sample_env out),
      documents_insert = Inr (lit ''doc-1''), today = 1700000000000\<rparr>"

definition initial_page :: page where
  "initial_page =
     \<lparr>page_status = StatusIdle, progress = 0, extractedText = Some [], currentFileName = [],
      history = [], selectedHistoryId = None, processingStats = None\<rparr>"

definition sample_insert :: db_call where
  "sample_insert = InsertDocument (lit ''u1'') (lit ''Lecture_Notes.png'') (lit ''image/png'') 4 Processing"

text \<open>A page with two documents in its history, and a store that holds them.\<close>

definition sample_item :: "string \<Rightarrow> HistoryItem" where
  "sample_item d =
     \<lparr>item_id = lit d, item_fileName = lit ''scan.png'', item_fileType = lit ''image/png'',
      item_extractedText = Some (lit ''Hello''), processedAt = 1700000000000\<rparr>"

definition sample_database :: database where
  "sample_database =
     \<lparr>documents =
        [\<lparr>row_id = lit ''doc-1'', row_user_id = lit ''u1'', row_file_name = lit ''scan.png'',
          row_file_type = lit ''image/png'', row_file_size = 4, row_status = Completed\<rparr>,
         \<lparr>row_id = lit ''doc-2'', row_user_id = lit ''u1'', row_file_name = lit ''scan.png'',
          row_file_type = lit ''image/png'', row_file_size = 4, row_status = Completed\<rparr>],
      ocr_results =
        [\<lparr>document_id = lit ''doc-1'', result_user_id = lit ''u1'', result_text = lit ''Hello''\<rparr>,
         \<lparr>document_id = lit ''doc-2'', result_user_id = lit ''u1'', result_text = lit ''Hello''\<rparr>]\<rparr>"

definition sample_page :: page where
  "sample_page = initial_page\<lparr>page_status := StatusComplete,
     extractedText := Some (lit ''Hello''),
     history := [sample_item ''doc-1'', sample_item ''doc-2''],
     selectedHistoryId := Some (lit ''doc-1'')\<rparr>"

chapter \<open>Verified properties\<close>

lemmas eval_handler =
  serve_def catch_error_def post_def handle_payload_def on_gateway_def build_result_def json_response_def
  truthy_def or_default_def lit_def estimatedSize_def MAX_SIZE_BYTES_def
  invalid_fileType_def allowedTypes_def response_ok_def trim_def isWhiteSpace_def
  filter_Boolean_def select_prompts_def build_imageUrl_def startsWith_def
  ascii_toLowerCase_def sample_env_def sample_payload_def Let_def

section \<open>Word and character counts of a result\<close>

lemma split_at_dropWhile:
  "filter (\<lambda>w. w \<noteq> []) (split_at P [] (dropWhile P cs))
     = filter (\<lambda>w. w \<noteq> []) (split_at P [] cs)"
  by (induction cs) auto

lemma split_ws_split_at:
  "filter (\<lambda>w. w \<noteq> []) (split_ws cur s)
     = filter (\<lambda>w. w \<noteq> []) (split_at isWhiteSpace cur s)"
proof (induction cur s rule: split_ws.induct)
  case (1 cur)
  then show ?case by simp
next
  case (2 cur c cs)
  then show ?case by (simp add: split_at_dropWhile)
qed

lemma words_eq: "filter_Boolean (split_ws [] s) = whitespace_words s"
  by (simp add: filter_Boolean_def whitespace_words_def split_ws_split_at)

lemma build_result_counts:
  "word_count (build_result e m t) = length (whitespace_words t)"
  "character_count (build_result e m t) = length t"
  "extracted_text (build_result e m t) = t"
  by (simp_all add: build_result_def words_eq Let_def)

lemma on_gateway_counts:
  assumes "on_gateway e m out = Inr resp" and "body resp = ResultJson r"
  shows "counts_match r"
  using assms
  by (auto simp: on_gateway_def json_response_def Let_def counts_match_def build_result_counts
           split: fetch_outcome.splits gateway_json.splits js_content.splits if_splits)

lemma handle_payload_counts:
  assumes "handle_payload lc e p = (Inr resp, calls)" and "body resp = ResultJson r"
  shows "counts_match r"
  using assms
  by (auto simp: handle_payload_def json_response_def Let_def
           split: auth_outcome.splits if_splits intro: on_gateway_counts)

lemma serve_counts:
  assumes "serve lc e req = (resp, calls)" and "body resp = ResultJson r"
  shows "counts_match r"
  using assms
  by (auto simp: serve_def catch_error_def Let_def split: if_splits sum.splits prod.splits
           intro: handle_payload_counts)

text \<open>
  Claim C1. Whenever the handler answers with a result, the \<open>word_count\<close> of that result
  is the number of non-empty pieces that cutting its \<open>extracted_text\<close> at white space
  leaves, and its \<open>character_count\<close> is the length of its \<open>extracted_text\<close>.
\<close>

theorem ocr_counts_match_text:
  assumes "serve lc e req = (resp, calls)" and "body resp = ResultJson r"
  shows "word_count r = length (whitespace_words (extracted_text r))
       \<and> character_count r = length (extracted_text r)"
  using serve_counts [OF assms] by (simp add: counts_match_def)

theorem ocr_counts_match_text_witness:
  "serve ascii_toLowerCase
     (sample_env (FetchResponse 200 (Json (Str (lit ''Hello  world''))))) (post sample_payload)
     = (\<lparr>status = 200,
         body = ResultJson
           \<lparr>extracted_text = lit ''Hello  world'', processing_time_ms = 850,
            word_count = 2, character_count = 12,
            confidence_note = lit ''High confidence OCR extraction''\<rparr>\<rparr>,
        [AuthLookup (lit ''jwt''),
         GatewayFetch
           \<lparr>authorization = lit ''Bearer k1'', model = lit ''google/gemini-2.5-flash'',
            prompts = PrintedPrompts,
            image_url = lit ''data:image/png;base64,iVBORw0KGgo='', max_tokens = 4096\<rparr>])
   \<and> length (whitespace_words (lit ''Hello  world'')) = 2
   \<and> length (lit ''Hello  world'') = 12"
proof -
  let ?r = "\<lparr>extracted_text = lit ''Hello  world'', processing_time_ms = 850,
            word_count = 2, character_count = 12,
            confidence_note = lit ''High confidence OCR extraction''\<rparr>"
  have run: "serve ascii_toLowerCase
     (sample_env (FetchResponse 200 (Json (Str (lit ''Hello  world''))))) (post sample_payload)
     = (\<lparr>status = 200, body = ResultJson ?r\<rparr>,
        [AuthLookup (lit ''jwt''),
         GatewayFetch
           \<lparr>authorization = lit ''Bearer k1'', model = lit ''google/gemini-2.5-flash'',
            prompts = PrintedPrompts,
            image_url = lit ''data:image/png;base64,iVBORw0KGgo='', max_tokens = 4096\<rparr>])"
    by (simp add: eval_handler)
  have "body \<lparr>status = 200, body = ResultJson ?r\<rparr> = ResultJson ?r" by simp
  from ocr_counts_match_text [OF run this] run show ?thesis by simp
qed

section \<open>The handler's checks, in their order\<close>

text \<open>
  Claim C3. A request that is not a CORS preflight and whose JSON body has no
  \<open>userAccessToken\<close> (or an empty one) is answered with 401, and the handler has made no
  external call: neither the auth lookup nor the gateway fetch.
\<close>

theorem missing_token_401:
  assumes "req_method req \<noteq> lit ''OPTIONS''"
    and "req_json req = Inr p"
    and "userAccessToken p = None \<or> userAccessToken p = Some []"
  shows "serve lc e req =
           (\<lparr>status = 401, body = ErrorJson (lit ''Authentication required'') None\<rparr>, [])"
  using assms by (auto simp: serve_def handle_payload_def truthy_def json_response_def catch_error_def)

theorem missing_token_401_witness:
  "req_method (post (sample_payload\<lparr>userAccessToken := None\<rparr>)) \<noteq> lit ''OPTIONS''
   \<and> userAccessToken (sample_payload\<lparr>userAccessToken := None\<rparr>) = None
   \<and> serve ascii_toLowerCase (sample_env gateway_down)
        (post (sample_payload\<lparr>userAccessToken := None\<rparr>))
       = (\<lparr>status = 401, body = ErrorJson (lit ''Authentication required'') None\<rparr>, [])"
proof -
  let ?p = "sample_payload\<lparr>userAccessToken := None\<rparr>"
  have h1: "req_method (post ?p) \<noteq> lit ''OPTIONS''" by (simp add: post_def lit_def)
  have h2: "req_json (post ?p) = Inr ?p" by (simp add: post_def)
  have h3: "userAccessToken ?p = None \<or> userAccessToken ?p = Some []" by simp
  from missing_token_401 [OF h1 h2 h3] h1 show ?thesis by simp
qed

text \<open>
  Claim C2, as the code has it. Every authenticated request whose \<open>imageBase64\<close> has an
  estimate \<open>length * 3 / 4\<close> above 10485760 is answered with the 400 "File too large"
  when the gateway key is configured, and with the 500 of the missing key when it is not;
  in both cases whatever its \<open>fileType\<close>: the size check comes before the file type
  check.
\<close>

theorem oversized_payload_400:
  assumes "req_method req \<noteq> lit ''OPTIONS''"
    and "req_json req = Inr p"
    and "userAccessToken p = Some token" and "token \<noteq> []"
    and "getUser e token = AuthResult (Some u) None"
    and "imageBase64 p = Some image64"
    and "of_nat (length image64) * 3 / 4 > (10485760 :: rat)"
  shows "serve lc e req =
           (if LOVABLE_API_KEY e = None \<or> LOVABLE_API_KEY e = Some []
            then \<lparr>status = 500,
                  body = ErrorJson (lit ''LOVABLE_API_KEY is not configured'')
                           (Some (endTime e - startTime e))\<rparr>
            else \<lparr>status = 400,
                  body = ErrorJson (lit ''File too large. Maximum size is 10MB'') None\<rparr>,
            [AuthLookup token])"
proof -
  have "image64 \<noteq> []" using assms(7) by auto
  then show ?thesis using assms
    by (auto simp: serve_def handle_payload_def truthy_def or_default_def json_response_def
          catch_error_def estimatedSize_def MAX_SIZE_BYTES_def Let_def split: option.splits)
qed

theorem oversized_payload_400_witness:
  "getUser (sample_env gateway_down) (lit ''jwt'') = AuthResult (Some (lit ''u1'')) None
   \<and> of_nat (length (replicate 13981014 (0x41 :: 16 word))) * 3 / 4 > (10485760 :: rat)
   \<and> serve ascii_toLowerCase (sample_env gateway_down) (post (oversized_payload (Some (lit ''text/plain''))))
     = (\<lparr>status = 400, body = ErrorJson (lit ''File too large. Maximum size is 10MB'') None\<rparr>,
        [AuthLookup (lit ''jwt'')])"
proof -
  let ?p = "oversized_payload (Some (lit ''text/plain''))"
  have h1: "req_method (post ?p) \<noteq> lit ''OPTIONS''" by (simp add: post_def lit_def)
  have h2: "req_json (post ?p) = Inr ?p" by (simp add: post_def)
  have h3: "userAccessToken ?p = Some (lit ''jwt'')" by (simp add: oversized_payload_def)
  have h4: "lit ''jwt'' \<noteq> []" by (simp add: lit_def)
  have h5: "getUser (sample_env gateway_down) (lit ''jwt'') = AuthResult (Some (lit ''u1'')) None"
    by (simp add: sample_env_def)
  have h6: "LOVABLE_API_KEY (sample_env gateway_down) = Some (lit ''k1'')" by (simp add: sample_env_def)
  have h7: "lit ''k1'' \<noteq> []" by (simp add: lit_def)
  have h8: "imageBase64 ?p = Some (replicate 13981014 0x41)" by (simp add: oversized_payload_def)
  have h9: "of_nat (length (replicate 13981014 (0x41 :: 16 word))) * 3 / 4 > (10485760 :: rat)"
    by simp
  from oversized_payload_400 [OF h1 h2 h3 h4 h5 h8 h9, of ascii_toLowerCase] h5 h6 h7 h9
  show ?thesis by simp
qed

text \<open>
  Claim C2 as stated fails where \<open>LOVABLE_API_KEY\<close> is not set: the handler throws
  before it looks at the payload, and the authenticated, oversized request gets a 500.
\<close>

theorem oversized_without_key_counterexample:
  "getUser ((sample_env gateway_down)\<lparr>LOVABLE_API_KEY := None\<rparr>) (lit ''jwt'') = AuthResult (Some (lit ''u1'')) None
   \<and> estimatedSize (replicate 13981014 0x41) > 10485760
   \<and> status (fst (serve ascii_toLowerCase ((sample_env gateway_down)\<lparr>LOVABLE_API_KEY := None\<rparr>)
                (post (oversized_payload (Some (lit ''image/png'')))))) = 500"
  by (simp add: eval_handler oversized_payload_def)

section \<open>The gateway's answer\<close>

lemma all_dropWhile: "(\<forall>x\<in>set (dropWhile P s). P x) \<longleftrightarrow> (\<forall>x\<in>set s. P x)"
  by (induction s) auto

lemma trim_empty_iff: "trim s = [] \<longleftrightarrow> (\<forall>c\<in>set s. isWhiteSpace c)"
  by (simp add: trim_def dropWhile_eq_Nil_conv all_dropWhile)

lemma handle_payload_calls:
  assumes "handle_payload lc e p = (r, calls)" and "GatewayFetch call \<in> set calls"
  shows "\<exists>m. r = on_gateway e m (fetch_gateway e call)"
  using assms
  by (auto simp: handle_payload_def Let_def split: if_splits auth_outcome.splits)

lemma serve_calls:
  assumes "serve lc e req = (resp, calls)" and "GatewayFetch call \<in> set calls"
  shows "\<exists>m. resp = catch_error e (on_gateway e m (fetch_gateway e call))"
  using assms
  by (auto simp: serve_def Let_def split: if_splits sum.splits prod.splits
           dest: handle_payload_calls)

lemma sample_calls:
  "snd (serve ascii_toLowerCase (sample_env out) (post sample_payload))
     = [AuthLookup (lit ''jwt''), GatewayFetch sample_call]"
  by (simp add: eval_handler sample_call_def)

text \<open>
  Claim C4. When the gateway answers the handler's call with status 429, the handler
  answers 429 with the message "Rate limit exceeded. Please try again in a moment.";
  when it answers with 402, the handler answers 402.
\<close>

theorem upstream_limits:
  assumes "serve lc e req = (resp, calls)"
    and "GatewayFetch call \<in> set calls"
    and "fetch_gateway e call = FetchResponse st js"
  shows "(st = 429 \<longrightarrow> resp = \<lparr>status = 429,
             body = ErrorJson (lit ''Rate limit exceeded. Please try again in a moment.'') None\<rparr>)
       \<and> (st = 402 \<longrightarrow> resp = \<lparr>status = 402,
             body = ErrorJson (lit ''Usage limit reached. Please add credits to continue.'') None\<rparr>)"
proof -
  from serve_calls [OF assms(1,2)] obtain m
    where "resp = catch_error e (on_gateway e m (FetchResponse st js))"
    using assms(3) by auto
  then show ?thesis
    by (simp add: on_gateway_def catch_error_def response_ok_def json_response_def)
qed

theorem upstream_limits_witness:
  "fst (serve ascii_toLowerCase (sample_env (FetchResponse 429 (JsonThrows []))) (post sample_payload))
     = \<lparr>status = 429,
        body = ErrorJson (lit ''Rate limit exceeded. Please try again in a moment.'') None\<rparr>
   \<and> fst (serve ascii_toLowerCase (sample_env (FetchResponse 402 (JsonThrows []))) (post sample_payload))
     = \<lparr>status = 402,
        body = ErrorJson (lit ''Usage limit reached. Please add credits to continue.'') None\<rparr>"
proof -
  have run: "serve lc e req = (fst (serve lc e req), snd (serve lc e req))" for lc e req by simp
  have mem: "GatewayFetch sample_call
               \<in> set (snd (serve ascii_toLowerCase (sample_env out) (post sample_payload)))" for out
    by (simp add: sample_calls)
  have f: "fetch_gateway (sample_env out) sample_call = out" for out
    by (simp add: sample_env_def)
  let ?a = "FetchResponse 429 (JsonThrows [])" and ?b = "FetchResponse 402 (JsonThrows [])"
  from upstream_limits [OF run mem [of ?a] f [of ?a]]
       upstream_limits [OF run mem [of ?b] f [of ?b]]
  show ?thesis by simp
qed

text \<open>
  Claim C5. When the gateway answers with a status outside 200 to 299 other than 429 and
  402, or answers successfully with a text that is absent, empty or all white space,
  the handler answers 500 with a JSON error message.
\<close>

theorem generic_failure:
  assumes "serve lc e req = (resp, calls)"
    and "GatewayFetch call \<in> set calls"
    and "fetch_gateway e call = FetchResponse st js"
  shows "(\<not> response_ok st \<and> st \<noteq> 429 \<and> st \<noteq> 402 \<longrightarrow>
            resp = \<lparr>status = 500,
                    body = ErrorJson (lit ''AI Gateway error: '' @ decimal st)
                             (Some (endTime e - startTime e))\<rparr>)
       \<and> (response_ok st
            \<and> (js = Json Undefined \<or> (\<exists>t. js = Json (Str t) \<and> (\<forall>c\<in>set t. isWhiteSpace c))) \<longrightarrow>
            resp = \<lparr>status = 500,
                    body = ErrorJson (lit ''No text could be extracted from the image'')
                             (Some (endTime e - startTime e))\<rparr>)"
proof -
  from serve_calls [OF assms(1,2)] obtain m
    where r: "resp = catch_error e (on_gateway e m (FetchResponse st js))"
    using assms(3) by auto
  have "trim [] = []" by (simp add: trim_def)
  then show ?thesis unfolding r
    by (auto simp: on_gateway_def catch_error_def trim_empty_iff)
qed

theorem generic_failure_witness:
  "fst (serve ascii_toLowerCase (sample_env (FetchResponse 503 (JsonThrows []))) (post sample_payload))
     = \<lparr>status = 500, body = ErrorJson (lit ''AI Gateway error: 503'') (Some 850)\<rparr>
   \<and> fst (serve ascii_toLowerCase (sample_env (FetchResponse 200 (Json (Str (lit ''  '')))))
           (post sample_payload))
     = \<lparr>status = 500,
        body = ErrorJson (lit ''No text could be extracted from the image'') (Some 850)\<rparr>"
proof -
  have run: "serve lc e req = (fst (serve lc e req), snd (serve lc e req))" for lc e req by simp
  have mem: "GatewayFetch sample_call
               \<in> set (snd (serve ascii_toLowerCase (sample_env out) (post sample_payload)))" for out
    by (simp add: sample_calls)
  have f: "fetch_gateway (sample_env out) sample_call = out" for out
    by (simp add: sample_env_def)
  have ws: "\<forall>c\<in>set (lit ''  ''). isWhiteSpace c" by (simp add: lit_def isWhiteSpace_def)
  have d: "decimal 503 = lit ''503''" by (simp add: decimal.simps lit_def)
  have t: "endTime (sample_env out) - startTime (sample_env out) = 850" for out
    by (simp add: sample_env_def)
  let ?a = "FetchResponse 503 (JsonThrows [])" and ?b = "FetchResponse 200 (Json (Str (lit ''  '')))"
  from generic_failure [OF run mem [of ?a] f [of ?a]]
       generic_failure [OF run mem [of ?b] f [of ?b]] ws
  show ?thesis by (simp add: response_ok_def d t lit_def)
qed

section \<open>File type validation\<close>

lemma on_gateway_not_400: "on_gateway e m out = Inr resp \<Longrightarrow> status resp \<noteq> 400"
  by (auto simp: on_gateway_def json_response_def Let_def
           split: fetch_outcome.splits gateway_json.splits js_content.splits if_splits)

lemma invalid_only_from_type_check:
  assumes "handle_payload lc e p =
             (Inr (json_response 400 ''Invalid file type. Allowed: PNG, JPEG, WebP, GIF, PDF''), calls)"
  shows "invalid_fileType lc (fileType p)"
  using assms
  by (auto simp: handle_payload_def json_response_def Let_def lit_def
           split: if_splits auth_outcome.splits dest: on_gateway_not_400)

lemma serve_invalid_only_from_type_check:
  assumes "req_json req = Inr p"
    and "fst (serve lc e req) =
           json_response 400 ''Invalid file type. Allowed: PNG, JPEG, WebP, GIF, PDF''"
  shows "invalid_fileType lc (fileType p)"
proof -
  obtain r calls where h: "handle_payload lc e p = (r, calls)" by (cases "handle_payload lc e p")
  from assms h have c: "catch_error e r =
      json_response 400 ''Invalid file type. Allowed: PNG, JPEG, WebP, GIF, PDF''"
    by (auto simp: serve_def json_response_def split: if_splits)
  then obtain resp where "r = Inr resp"
    by (cases r) (auto simp: catch_error_def json_response_def)
  with c h show ?thesis
    by (auto simp: catch_error_def intro: invalid_only_from_type_check)
qed

lemma handle_payload_validated:
  assumes "userAccessToken p = Some token" and "token \<noteq> []"
    and "getUser e token = AuthResult (Some u) None"
    and "LOVABLE_API_KEY e = Some key" and "key \<noteq> []"
    and "imageBase64 p = Some image64" and "image64 \<noteq> []"
    and "of_nat (length image64) * 3 / 4 \<le> (10485760 :: rat)"
  shows "handle_payload lc e p =
     (if invalid_fileType lc (fileType p)
      then (Inr (json_response 400 ''Invalid file type. Allowed: PNG, JPEG, WebP, GIF, PDF''),
            [AuthLookup token])
      else
        let m = (case mode p of None \<Rightarrow> Mixed | Some m' \<Rightarrow> m');
            call = \<lparr>authorization = lit ''Bearer '' @ key,
                    model = lit ''google/gemini-2.5-flash'',
                    prompts = select_prompts m,
                    image_url = build_imageUrl image64 (fileType p),
                    max_tokens = 4096\<rparr>
        in (on_gateway e m (fetch_gateway e call), [AuthLookup token, GatewayFetch call]))"
  using assms
  by (simp add: handle_payload_def truthy_def or_default_def estimatedSize_def
        MAX_SIZE_BYTES_def Let_def)

lemma build_imageUrl_default:
  assumes "ft = None \<or> ft = Some []" and "\<not> prefix (lit ''data:'') image64"
  shows "build_imageUrl image64 ft = lit ''data:image/png;base64,'' @ image64"
proof -
  have "\<not> startsWith image64 (lit ''data:'')"
    using assms(2) by (metis startsWith_def take_is_prefix)
  then show ?thesis using assms(1)
    by (auto simp: build_imageUrl_def or_default_def lit_def)
qed

text \<open>
  Claim C10. A request whose \<open>fileType\<close> is absent or empty never gets the 400 "Invalid
  file type". For an authenticated request that passes the checks before it, that branch
  is taken exactly when \<open>fileType\<close> is non-empty and its lowercasing is outside the
  allowed list; and with \<open>fileType\<close> absent or empty and a payload that does not start
  with \<open>data:\<close>, the request goes on to the gateway with the URL
  \<open>data:image/png;base64,\<close> followed by the payload.
\<close>

theorem fileType_validation:
  assumes "req_method req \<noteq> lit ''OPTIONS''" and "req_json req = Inr p"
  shows
    "((fileType p = None \<or> fileType p = Some []) \<longrightarrow>
        fst (serve lc e req) \<noteq>
          \<lparr>status = 400,
           body = ErrorJson (lit ''Invalid file type. Allowed: PNG, JPEG, WebP, GIF, PDF'') None\<rparr>)
     \<and> (userAccessToken p = Some token \<and> token \<noteq> []
          \<and> getUser e token = AuthResult (Some u) None
          \<and> LOVABLE_API_KEY e = Some key \<and> key \<noteq> []
          \<and> imageBase64 p = Some image64 \<and> image64 \<noteq> []
          \<and> of_nat (length image64) * 3 / 4 \<le> (10485760 :: rat) \<longrightarrow>
        ((fst (serve lc e req) =
            \<lparr>status = 400,
             body = ErrorJson (lit ''Invalid file type. Allowed: PNG, JPEG, WebP, GIF, PDF'')
                      None\<rparr>)
          \<longleftrightarrow> (\<exists>t. fileType p = Some t \<and> t \<noteq> [] \<and> lc t \<notin> set allowedTypes))
        \<and> ((fileType p = None \<or> fileType p = Some []) \<and> \<not> prefix (lit ''data:'') image64 \<longrightarrow>
             (\<exists>call. snd (serve lc e req) = [AuthLookup token, GatewayFetch call]
                     \<and> image_url call = lit ''data:image/png;base64,'' @ image64)))"
proof -
  let ?invalid = "\<lparr>status = 400,
           body = ErrorJson (lit ''Invalid file type. Allowed: PNG, JPEG, WebP, GIF, PDF'') None\<rparr>"
  have inv: "?invalid = json_response 400 ''Invalid file type. Allowed: PNG, JPEG, WebP, GIF, PDF''"
    by (simp add: json_response_def)
  have A: "(fileType p = None \<or> fileType p = Some []) \<longrightarrow> fst (serve lc e req) \<noteq> ?invalid"
    using serve_invalid_only_from_type_check [OF assms(2), of lc e]
    unfolding inv by (auto simp: invalid_fileType_def)
  have B: "(fst (serve lc e req) = ?invalid)
             \<longleftrightarrow> (\<exists>t. fileType p = Some t \<and> t \<noteq> [] \<and> lc t \<notin> set allowedTypes)"
    and C: "(fileType p = None \<or> fileType p = Some []) \<and> \<not> prefix (lit ''data:'') image64 \<longrightarrow>
             (\<exists>call. snd (serve lc e req) = [AuthLookup token, GatewayFetch call]
                     \<and> image_url call = lit ''data:image/png;base64,'' @ image64)"
    if reach: "userAccessToken p = Some token" "token \<noteq> []"
          "getUser e token = AuthResult (Some u) None"
          "LOVABLE_API_KEY e = Some key" "key \<noteq> []"
          "imageBase64 p = Some image64" "image64 \<noteq> []"
          "of_nat (length image64) * 3 / 4 \<le> (10485760 :: rat)"
  proof -
    note hp = handle_payload_validated [OF reach, of lc]
    have iv: "invalid_fileType lc (fileType p)
                \<longleftrightarrow> (\<exists>t. fileType p = Some t \<and> t \<noteq> [] \<and> lc t \<notin> set allowedTypes)"
      by (auto simp: invalid_fileType_def split: option.splits)
    show "(fst (serve lc e req) = ?invalid)
             \<longleftrightarrow> (\<exists>t. fileType p = Some t \<and> t \<noteq> [] \<and> lc t \<notin> set allowedTypes)"
    proof
      assume "fst (serve lc e req) = ?invalid"
      then show "\<exists>t. fileType p = Some t \<and> t \<noteq> [] \<and> lc t \<notin> set allowedTypes"
        using serve_invalid_only_from_type_check [OF assms(2), of lc e] iv inv by simp
    next
      assume "\<exists>t. fileType p = Some t \<and> t \<noteq> [] \<and> lc t \<notin> set allowedTypes"
      then have "invalid_fileType lc (fileType p)" using iv by simp
      then show "fst (serve lc e req) = ?invalid"
        using assms hp by (simp add: serve_def catch_error_def json_response_def)
    qed
    show "(fileType p = None \<or> fileType p = Some []) \<and> \<not> prefix (lit ''data:'') image64 \<longrightarrow>
             (\<exists>call. snd (serve lc e req) = [AuthLookup token, GatewayFetch call]
                     \<and> image_url call = lit ''data:image/png;base64,'' @ image64)"
    proof
      assume h: "(fileType p = None \<or> fileType p = Some []) \<and> \<not> prefix (lit ''data:'') image64"
      then have "\<not> invalid_fileType lc (fileType p)" by (auto simp: invalid_fileType_def)
      with assms hp h show "\<exists>call. snd (serve lc e req) = [AuthLookup token, GatewayFetch call]
                     \<and> image_url call = lit ''data:image/png;base64,'' @ image64"
        by (simp add: serve_def Let_def build_imageUrl_default)
    qed
  qed
  from A B C show ?thesis by blast
qed

theorem fileType_validation_witness:
  "fileType (sample_payload\<lparr>fileType := None\<rparr>) = None
   \<and> \<not> prefix (lit ''data:'') (lit ''iVBORw0KGgo='')
   \<and> fst (serve ascii_toLowerCase (sample_env gateway_down)
            (post (sample_payload\<lparr>fileType := None\<rparr>)))
       \<noteq> \<lparr>status = 400,
           body = ErrorJson (lit ''Invalid file type. Allowed: PNG, JPEG, WebP, GIF, PDF'') None\<rparr>
   \<and> (\<exists>call. snd (serve ascii_toLowerCase (sample_env gateway_down)
                    (post (sample_payload\<lparr>fileType := None\<rparr>)))
               = [AuthLookup (lit ''jwt''), GatewayFetch call]
             \<and> image_url call = lit ''data:image/png;base64,iVBORw0KGgo='')
   \<and> ascii_toLowerCase (lit ''Text/Plain'') \<notin> set allowedTypes
   \<and> fst (serve ascii_toLowerCase (sample_env gateway_down)
            (post (sample_payload\<lparr>fileType := Some (lit ''Text/Plain'')\<rparr>)))
       = \<lparr>status = 400,
          body = ErrorJson (lit ''Invalid file type. Allowed: PNG, JPEG, WebP, GIF, PDF'') None\<rparr>"
proof -
  let ?p = "sample_payload\<lparr>fileType := None\<rparr>"
  let ?q = "sample_payload\<lparr>fileType := Some (lit ''Text/Plain'')\<rparr>"
  let ?e = "sample_env gateway_down"
  have m: "req_method (post p) \<noteq> lit ''OPTIONS''" "req_json (post p) = Inr p" for p
    by (simp_all add: post_def lit_def)
  have reach:
    "userAccessToken p = Some (lit ''jwt'') \<and> lit ''jwt'' \<noteq> []
     \<and> getUser ?e (lit ''jwt'') = AuthResult (Some (lit ''u1'')) None
     \<and> LOVABLE_API_KEY ?e = Some (lit ''k1'') \<and> lit ''k1'' \<noteq> []
     \<and> imageBase64 p = Some (lit ''iVBORw0KGgo='') \<and> lit ''iVBORw0KGgo='' \<noteq> []
     \<and> of_nat (length (lit ''iVBORw0KGgo='')) * 3 / 4 \<le> (10485760 :: rat)"
    if "p = ?p \<or> p = ?q" for p
    using that by (auto simp: sample_payload_def sample_env_def lit_def)
  have np: "\<not> prefix (lit ''data:'') (lit ''iVBORw0KGgo='')" by (simp add: lit_def)
  have bad: "ascii_toLowerCase (lit ''Text/Plain'') \<notin> set allowedTypes"
    by (simp add: ascii_toLowerCase_def allowedTypes_def lit_def)
  have fq: "fileType ?q = Some (lit ''Text/Plain'') \<and> lit ''Text/Plain'' \<noteq> []"
    by (simp add: lit_def)
  from fileType_validation [OF m [of ?p], of ascii_toLowerCase ?e "lit ''jwt''" "lit ''u1''"
         "lit ''k1''" "lit ''iVBORw0KGgo=''"] reach [of ?p] np
  have P: "fst (serve ascii_toLowerCase ?e (post ?p))
       \<noteq> \<lparr>status = 400,
           body = ErrorJson (lit ''Invalid file type. Allowed: PNG, JPEG, WebP, GIF, PDF'') None\<rparr>
     \<and> (\<exists>call. snd (serve ascii_toLowerCase ?e (post ?p))
               = [AuthLookup (lit ''jwt''), GatewayFetch call]
             \<and> image_url call = lit ''data:image/png;base64,'' @ lit ''iVBORw0KGgo='')"
    by simp
  from fileType_validation [OF m [of ?q], of ascii_toLowerCase ?e "lit ''jwt''" "lit ''u1''"
         "lit ''k1''" "lit ''iVBORw0KGgo=''"] reach [of ?q] bad fq
  have Q: "fst (serve ascii_toLowerCase ?e (post ?q))
       = \<lparr>status = 400,
          body = ErrorJson (lit ''Invalid file type. Allowed: PNG, JPEG, WebP, GIF, PDF'') None\<rparr>"
    by blast
  have "lit ''data:image/png;base64,'' @ lit ''iVBORw0KGgo='' = lit ''data:image/png;base64,iVBORw0KGgo=''"
    by (simp add: lit_def)
  with P Q np bad show ?thesis by simp
qed

section \<open>The client's payload and mode\<close>

lemma startsWith_prefix: "startsWith s p \<longleftrightarrow> prefix p s"
  by (metis startsWith_def take_is_prefix prefixE append_eq_conv_conj)

lemma includes_str_sublist: "includes_str s k \<longleftrightarrow> sublist k s"
  by (induction s) (auto simp: startsWith_prefix sublist_Cons_right)

lemma isLikelyHandwritten_iff:
  "isLikelyHandwritten lc n \<longleftrightarrow> (\<exists>k\<in>set handwritingKeywords. sublist k (lc n))"
  by (simp add: isLikelyHandwritten_def list_ex_iff includes_str_sublist)

lemma invokeOcrProcess_local:
  assumes "edge1 \<lparr>imageBase64 = imageBase64 b, fileName = fileName b, fileType = fileType b,
                   mode = mode b, userAccessToken = session\<rparr>
         = edge2 \<lparr>imageBase64 = imageBase64 b, fileName = fileName b, fileType = fileType b,
                   mode = mode b, userAccessToken = session\<rparr>"
  shows "invokeOcrProcess session edge1 b = invokeOcrProcess session edge2 b"
  using assms by (simp add: invokeOcrProcess_def)

lemma invokeOcrProcess_rejects:
  assumes "truthy session"
    and "edge \<lparr>imageBase64 = imageBase64 b, fileName = fileName b, fileType = fileType b,
                mode = mode b, userAccessToken = session\<rparr> = Inl msg"
  shows "invokeOcrProcess session edge b = Inl msg"
  using assms by (simp add: invokeOcrProcess_def)

lemma invokeOcrProcess_result:
  assumes "truthy session"
    and "edge \<lparr>imageBase64 = imageBase64 b, fileName = fileName b, fileType = fileType b,
                mode = mode b, userAccessToken = session\<rparr> = Inr resp"
    and "response_ok (status resp)" and "body resp = ResultJson r"
  shows "invokeOcrProcess session edge b = Inr (InvokeData (ResultJson r))"
  using assms by (simp add: invokeOcrProcess_def)

lemma sample_file_base64: "fileToBase64 sample_file = Some (lit ''iVBORw=='')"
  by (simp add: fileToBase64_def readAsDataURL_def sample_file_def base64_digit_def
        base64_alphabet_def lit_def)

lemma sample_file_fields:
  "name sample_file = lit ''Lecture_Notes.png''" "ftype sample_file = lit ''image/png''"
  "length (content sample_file) = 4"
  by (simp_all add: sample_file_def)

lemma sample_serve_handwriting:
  "fst (serve ascii_toLowerCase (sample_env out)
     (post \<lparr>imageBase64 = Some (lit ''iVBORw==''), fileName = Some (lit ''Lecture_Notes.png''),
            fileType = Some (lit ''image/png''), mode = Some Handwriting,
            userAccessToken = Some (lit ''jwt'')\<rparr>))
   = catch_error (sample_env out) (on_gateway (sample_env out) Handwriting out)"
  by (simp add: serve_def post_def handle_payload_def truthy_def or_default_def
        estimatedSize_def MAX_SIZE_BYTES_def invalid_fileType_def allowedTypes_def
        ascii_toLowerCase_def sample_env_def lit_def Let_def)

lemma sample_gateway_ok_handwriting:
  "catch_error (sample_env out)
     (on_gateway (sample_env out) Handwriting
        (FetchResponse 200 (Json (Str (lit ''Hello  world'')))))
   = \<lparr>status = 200,
      body = ResultJson \<lparr>extracted_text = lit ''Hello  world'', processing_time_ms = 850,
            word_count = 2, character_count = 12,
            confidence_note =
              lit ''Handwriting recognition - accuracy may vary based on writing clarity''\<rparr>\<rparr>"
  by (simp add: on_gateway_def catch_error_def response_ok_def trim_def isWhiteSpace_def
        build_result_def filter_Boolean_def sample_env_def lit_def)

text \<open>
  Claim C7. With no mode given, the mode that \<open>processDocument\<close> selects is \<open>handwriting\<close>
  exactly when the lowercased file name contains one of the keywords handwritten,
  handwriting, notes, notebook, manuscript, letter, diary, journal, and \<open>mixed\<close>
  otherwise; and that mode is the one it sends: the run is the run with that mode given,
  its outcome depends on the edge function only through the answer to the request that
  carries that mode, and for a file of a supported type in a session a rejection of that
  request is what it throws and a result answered to that request is what it returns.
\<close>

theorem mode_inferred_from_file_name:
  "(detectedMode lc f None = Handwriting
      \<longleftrightarrow> (\<exists>k \<in> set (map lit [''handwritten'', ''handwriting'', ''notes'', ''notebook'',
                               ''manuscript'', ''letter'', ''diary'', ''journal'']).
             sublist k (lc (name f))))
   \<and> (detectedMode lc f None \<noteq> Handwriting \<longrightarrow> detectedMode lc f None = Mixed)
   \<and> processDocument lc session edge f None
       = processDocument lc session edge f (Some (detectedMode lc f None))
   \<and> (let sent = \<lparr>imageBase64 = fileToBase64 f, fileName = Some (name f),
                    fileType = Some (ftype f), mode = Some (detectedMode lc f None),
                    userAccessToken = session\<rparr>
      in (\<forall>edge1 edge2. edge1 sent = edge2 sent \<longrightarrow>
            processDocument lc session edge1 f None = processDocument lc session edge2 f None)
       \<and> (truthy session
            \<and> (ftype f = lit ''application/pdf'' \<or> prefix (lit ''image/'') (ftype f)) \<longrightarrow>
            (\<forall>msg. edge sent = Inl msg \<longrightarrow> processDocument lc session edge f None = Inl msg)
            \<and> (\<forall>resp r. edge sent = Inr resp \<and> response_ok (status resp)
                       \<and> body resp = ResultJson r \<longrightarrow>
                  processDocument lc session edge f None = Inr (ResultJson r))))"
proof -
  let ?sent = "\<lparr>imageBase64 = fileToBase64 f, fileName = Some (name f),
                    fileType = Some (ftype f), mode = Some (detectedMode lc f None),
                    userAccessToken = session\<rparr>"
  have A: "detectedMode lc f None = Handwriting
      \<longleftrightarrow> (\<exists>k \<in> set (map lit [''handwritten'', ''handwriting'', ''notes'', ''notebook'',
                               ''manuscript'', ''letter'', ''diary'', ''journal'']).
             sublist k (lc (name f)))"
    by (auto simp: detectedMode_def isLikelyHandwritten_iff handwritingKeywords_def)
  have B: "detectedMode lc f None \<noteq> Handwriting \<longrightarrow> detectedMode lc f None = Mixed"
    by (simp add: detectedMode_def)
  have C: "processDocument lc session edge f None
       = processDocument lc session edge f (Some (detectedMode lc f None))"
    by (simp add: processDocument_def detectedMode_def)
  let ?b = "\<lparr>imageBase64 = fileToBase64 f, fileName = Some (name f),
             fileType = Some (ftype f), mode = Some (detectedMode lc f None)\<rparr>"
  have pdf: "processPDF session ed f (detectedMode lc f None)
               = unwrap_invoke ''PDF OCR processing failed'' (invokeOcrProcess session ed ?b)"
   and img: "processImage session ed f (detectedMode lc f None)
               = unwrap_invoke ''OCR processing failed'' (invokeOcrProcess session ed ?b)" for ed
    by (simp_all add: processPDF_def processImage_def)
  have D: "processDocument lc session edge1 f None = processDocument lc session edge2 f None"
    if "edge1 ?sent = edge2 ?sent" for edge1 edge2
  proof -
    have "invokeOcrProcess session edge1 ?b = invokeOcrProcess session edge2 ?b"
      by (rule invokeOcrProcess_local) (use that in simp)
    then have "processPDF session edge1 f (detectedMode lc f None)
                 = processPDF session edge2 f (detectedMode lc f None)"
      and "processImage session edge1 f (detectedMode lc f None)
                 = processImage session edge2 f (detectedMode lc f None)"
      unfolding pdf img by simp_all
    then show ?thesis
      by (simp add: processDocument_def Let_def)
  qed
  have E: "processDocument lc session edge f None = Inl msg"
    if "truthy session" "ftype f = lit ''application/pdf'' \<or> prefix (lit ''image/'') (ftype f)"
       "edge ?sent = Inl msg" for msg
  proof -
    have "invokeOcrProcess session edge ?b = Inl msg"
      by (rule invokeOcrProcess_rejects [OF that(1)]) (use that(3) in simp)
    then have "processPDF session edge f (detectedMode lc f None) = Inl msg"
      and "processImage session edge f (detectedMode lc f None) = Inl msg"
      unfolding pdf img by (simp_all add: unwrap_invoke_def)
    then show ?thesis
      using that(2) by (auto simp: processDocument_def Let_def startsWith_prefix)
  qed
  have F: "processDocument lc session edge f None = Inr (ResultJson r)"
    if "truthy session" "ftype f = lit ''application/pdf'' \<or> prefix (lit ''image/'') (ftype f)"
       "edge ?sent = Inr resp" "response_ok (status resp)" "body resp = ResultJson r" for resp r
  proof -
    have "invokeOcrProcess session edge ?b = Inr (InvokeData (ResultJson r))"
      by (rule invokeOcrProcess_result [OF that(1) _ that(4,5)]) (use that(3) in simp)
    then have "processPDF session edge f (detectedMode lc f None) = Inr (ResultJson r)"
      and "processImage session edge f (detectedMode lc f None) = Inr (ResultJson r)"
      unfolding pdf img by (simp_all add: unwrap_invoke_def)
    then show ?thesis
      using that(2) by (auto simp: processDocument_def Let_def startsWith_prefix)
  qed
  from A B C D E F show ?thesis unfolding Let_def by blast
qed

theorem mode_inferred_from_file_name_witness:
  "sublist (lit ''notes'') (ascii_toLowerCase (name sample_file))
   \<and> detectedMode ascii_toLowerCase sample_file None = Handwriting
   \<and> detectedMode ascii_toLowerCase (sample_file\<lparr>name := lit ''Invoice.PNG''\<rparr>) None = Mixed
   \<and> processDocument ascii_toLowerCase (Some (lit ''jwt''))
        (deployed_edge (sample_env (FetchResponse 200 (Json (Str (lit ''Hello  world''))))))
        sample_file None
      = Inr (ResultJson \<lparr>extracted_text = lit ''Hello  world'', processing_time_ms = 850,
            word_count = 2, character_count = 12,
            confidence_note =
              lit ''Handwriting recognition - accuracy may vary based on writing clarity''\<rparr>)"
proof -
  let ?env = "sample_env (FetchResponse 200 (Json (Str (lit ''Hello  world''))))"
  let ?r = "\<lparr>extracted_text = lit ''Hello  world'', processing_time_ms = 850,
            word_count = 2, character_count = 12,
            confidence_note =
              lit ''Handwriting recognition - accuracy may vary based on writing clarity''\<rparr>"
  let ?resp = "\<lparr>status = 200, body = ResultJson ?r\<rparr>"
  let ?sent = "\<lparr>imageBase64 = fileToBase64 sample_file, fileName = Some (name sample_file),
                fileType = Some (ftype sample_file),
                mode = Some (detectedMode ascii_toLowerCase sample_file None),
                userAccessToken = Some (lit ''jwt'')\<rparr>"
  have k: "lit ''notes'' \<in> set (map lit [''handwritten'', ''handwriting'', ''notes'', ''notebook'',
                               ''manuscript'', ''letter'', ''diary'', ''journal''])"
    by simp
  have s: "sublist (lit ''notes'') (ascii_toLowerCase (name sample_file))"
    unfolding includes_str_sublist [symmetric]
    by (simp add: sample_file_def ascii_toLowerCase_def lit_def startsWith_def)
  have n: "detectedMode ascii_toLowerCase (sample_file\<lparr>name := lit ''Invoice.PNG''\<rparr>) None
             \<noteq> Handwriting"
    by (simp add: detectedMode_def isLikelyHandwritten_def handwritingKeywords_def
          sample_file_def ascii_toLowerCase_def lit_def startsWith_def)
  note T = mode_inferred_from_file_name [of ascii_toLowerCase sample_file "Some (lit ''jwt'')"
             "deployed_edge ?env", unfolded Let_def]
  from T k s have hw: "detectedMode ascii_toLowerCase sample_file None = Handwriting"
    by blast
  from mode_inferred_from_file_name
      [of ascii_toLowerCase "sample_file\<lparr>name := lit ''Invoice.PNG''\<rparr>"] n
  have mx: "detectedMode ascii_toLowerCase (sample_file\<lparr>name := lit ''Invoice.PNG''\<rparr>) None = Mixed"
    by blast
  have session: "truthy (Some (lit ''jwt''))" by (simp add: truthy_def lit_def)
  have supported: "ftype sample_file = lit ''application/pdf''
                     \<or> prefix (lit ''image/'') (ftype sample_file)"
    by (simp add: sample_file_def lit_def)
  have answer: "deployed_edge ?env ?sent = Inr ?resp"
    by (simp add: hw sample_file_base64 sample_file_fields deployed_edge_def
          sample_serve_handwriting sample_gateway_ok_handwriting)
  have ok: "response_ok (status ?resp)" "body ?resp = ResultJson ?r"
    by (simp_all add: response_ok_def)
  from T session supported answer ok
  have "processDocument ascii_toLowerCase (Some (lit ''jwt'')) (deployed_edge ?env) sample_file None
          = Inr (ResultJson ?r)"
    by blast
  with s hw mx show ?thesis by simp
qed

lemma split_at_no_sep: "\<forall>x\<in>set xs. \<not> P x \<Longrightarrow> split_at P cur xs = [cur @ xs]"
  by (induction xs arbitrary: cur) auto

lemma split_at_first_sep:
  "\<forall>x\<in>set xs. \<not> P x \<Longrightarrow> P s \<Longrightarrow> split_at P cur (xs @ s # ys) = (cur @ xs) # split_at P [] ys"
  by (induction xs arbitrary: cur) auto

lemma length_base64_alphabet: "length base64_alphabet = 64"
  by (simp add: base64_alphabet_def lit_def)

lemma base64_digit_mem: "base64_digit n \<in> set base64_alphabet"
  by (simp add: base64_digit_def length_base64_alphabet)

lemma base64_chars: "c \<in> set (base64 bs) \<Longrightarrow> c \<in> set base64_alphabet \<or> c = 0x3D"
  by (induction bs rule: base64.induct) (auto simp: Let_def base64_digit_mem)

lemma base64_no_comma: "0x2C \<notin> set (base64 bs)"
  using base64_chars [of "0x2C" bs] by (auto simp: base64_alphabet_def lit_def)

lemma base64_no_colon: "0x3A \<notin> set (base64 bs)"
  using base64_chars [of "0x3A" bs] by (auto simp: base64_alphabet_def lit_def)

lemma base64_not_data_url: "\<not> prefix (lit ''data:'') (base64 bs)"
proof
  assume "prefix (lit ''data:'') (base64 bs)"
  then have "set (lit ''data:'') \<subseteq> set (base64 bs)" by (rule set_mono_prefix)
  then have "0x3A \<in> set (base64 bs)" by (auto simp: lit_def)
  then show False using base64_no_colon by simp
qed

lemma readAsDataURL_split:
  assumes "0x2C \<notin> set (ftype f)"
  shows "split_at (\<lambda>c. c = 0x2C) [] (readAsDataURL f)
           = [lit ''data:'' @ (if ftype f = [] then lit ''application/octet-stream'' else ftype f)
                @ lit '';base64'',
              base64 (content f)]"
proof -
  let ?head = "lit ''data:'' @ (if ftype f = [] then lit ''application/octet-stream'' else ftype f)
                @ lit '';base64''"
  have u: "readAsDataURL f = ?head @ 0x2C # base64 (content f)"
    by (simp add: readAsDataURL_def lit_def)
  have h: "\<forall>x\<in>set ?head. \<not> x = 0x2C"
    using assms by (auto simp: lit_def)
  have "split_at (\<lambda>c. c = 0x2C) [] (?head @ 0x2C # base64 (content f))
          = ([] @ ?head) # split_at (\<lambda>c. c = 0x2C) [] (base64 (content f))"
    by (rule split_at_first_sep [OF h]) simp
  also have "split_at (\<lambda>c. c = 0x2C) [] (base64 (content f)) = [[] @ base64 (content f)]"
    by (rule split_at_no_sep) (use base64_no_comma in auto)
  finally show ?thesis unfolding u by simp
qed

text \<open>
  Claim C6, as the code has it. \<open>fileToBase64\<close> gives the base64 digits of the file's
  bytes, the part of the data URL after the comma, and that payload never starts with
  \<open>data:\<close> (for a file whose MIME type has no comma). The data URL
  \<open>data:<mime>;base64,<payload>\<close> is put together by the handler, which takes
  \<open>image/png\<close> when the file type is empty.
\<close>

theorem client_sends_bare_base64:
  assumes "0x2C \<notin> set (ftype f)"
  shows "fileToBase64 f = Some (base64 (content f))
       \<and> \<not> prefix (lit ''data:'') (base64 (content f))
       \<and> build_imageUrl (base64 (content f)) (Some (ftype f))
           = lit ''data:'' @ (if ftype f = [] then lit ''image/png'' else ftype f)
               @ lit '';base64,'' @ base64 (content f)"
proof -
  have "fileToBase64 f = Some (base64 (content f))"
    by (simp add: fileToBase64_def readAsDataURL_split [OF assms])
  moreover have "\<not> startsWith (base64 (content f)) (lit ''data:'')"
    by (simp add: startsWith_prefix base64_not_data_url)
  ultimately show ?thesis
    by (simp add: build_imageUrl_def or_default_def base64_not_data_url)
qed

theorem client_sends_bare_base64_witness:
  "0x2C \<notin> set (ftype sample_file)
   \<and> fileToBase64 sample_file = Some (lit ''iVBORw=='')
   \<and> \<not> prefix (lit ''data:'') (lit ''iVBORw=='')
   \<and> build_imageUrl (lit ''iVBORw=='') (Some (lit ''image/png''))
        = lit ''data:image/png;base64,iVBORw==''"
proof -
  have c: "0x2C \<notin> set (ftype sample_file)" by (simp add: sample_file_def lit_def)
  have b: "base64 (content sample_file) = lit ''iVBORw==''"
    by (simp add: sample_file_def base64_digit_def base64_alphabet_def lit_def)
  have t: "ftype sample_file = lit ''image/png''" by (simp add: sample_file_def)
  from client_sends_bare_base64 [OF c] c show ?thesis
    unfolding b t by (simp add: lit_def)
qed

text \<open>
  Claim C6 as stated fails: the payload the client sends for a PNG file does not begin
  with \<open>data:image/png;base64,\<close>; that prefix is what \<open>fileToBase64\<close> cuts off.
\<close>

theorem data_url_prefix_counterexample:
  "readAsDataURL sample_file = lit ''data:image/png;base64,iVBORw==''
   \<and> fileToBase64 sample_file = Some (lit ''iVBORw=='')
   \<and> \<not> prefix (lit ''data:image/png;base64,'') (lit ''iVBORw=='')"
  by (simp add: fileToBase64_def readAsDataURL_def sample_file_def base64_digit_def
        base64_alphabet_def lit_def)

section \<open>The page and the table store\<close>

text \<open>
  Claim C8. In every run of \<open>handleOCRProcessing\<close>, a document is inserted with status
  \<open>processing\<close> only; the run makes at most one status update; an update is for the
  document this run has inserted, to \<open>completed\<close> when \<open>processDocument\<close> has returned and
  to \<open>failed\<close> when it has thrown; and once the document is inserted exactly that one
  update follows. The run deletes nothing.
\<close>

theorem document_status_lifecycle:
  assumes "handleOCRProcessing lc b user f m st = (st', calls)"
  shows "(\<forall>u n t z s. InsertDocument u n t z s \<in> set calls \<longrightarrow> s = Processing)
       \<and> length (status_updates calls) \<le> 1
       \<and> (\<forall>d s. (d, s) \<in> set (status_updates calls) \<longrightarrow>
             user \<noteq> None \<and> documents_insert b = Inr d
             \<and> (s = Completed \<and>
                  (\<exists>r. processDocument lc (access_token b) (edge_function b) f (Some m) = Inr r)
                \<or> s = Failed \<and>
                  (\<exists>msg. processDocument lc (access_token b) (edge_function b) f (Some m) = Inl msg)))
       \<and> (\<forall>d. user \<noteq> None \<and> documents_insert b = Inr d \<longrightarrow>
             (\<exists>u rest.
                 calls = InsertDocument u (name f) (ftype f) (length (content f)) Processing # rest
                 \<and> status_updates rest =
                     [(d, case processDocument lc (access_token b) (edge_function b) f (Some m) of
                            Inr _ \<Rightarrow> Completed | Inl _ \<Rightarrow> Failed)]))
       \<and> (\<forall>d. DeleteDocument d \<notin> set calls)"
  using assms
  by (auto simp: handleOCRProcessing_def Let_def split: option.splits sum.splits)

lemma sample_serve:
  "fst (serve ascii_toLowerCase (sample_env out)
     (post \<lparr>imageBase64 = Some (lit ''iVBORw==''), fileName = Some (lit ''Lecture_Notes.png''),
            fileType = Some (lit ''image/png''), mode = Some Mixed,
            userAccessToken = Some (lit ''jwt'')\<rparr>))
   = catch_error (sample_env out) (on_gateway (sample_env out) Mixed out)"
  by (simp add: serve_def post_def handle_payload_def truthy_def or_default_def
        estimatedSize_def MAX_SIZE_BYTES_def invalid_fileType_def allowedTypes_def
        ascii_toLowerCase_def sample_env_def lit_def Let_def)

lemma sample_processDocument:
  "processDocument ascii_toLowerCase (access_token (sample_browser out))
     (edge_function (sample_browser out)) sample_file (Some Mixed)
   = unwrap_invoke ''OCR processing failed''
       (invokeOcrProcess (Some (lit ''jwt'')) (deployed_edge (sample_env out))
          \<lparr>imageBase64 = Some (lit ''iVBORw==''), fileName = Some (lit ''Lecture_Notes.png''),
           fileType = Some (lit ''image/png''), mode = Some Mixed\<rparr>)"
proof -
  have t: "lit ''image/png'' \<noteq> lit ''application/pdf''"
          "startsWith (lit ''image/png'') (lit ''image/'')"
    by (simp_all add: lit_def startsWith_def)
  show ?thesis
    by (simp add: processDocument_def t processImage_def sample_file_base64 sample_file_fields
          sample_browser_def detectedMode_def Let_def)
qed

lemma sample_invoke:
  "invokeOcrProcess (Some (lit ''jwt'')) (deployed_edge (sample_env out))
          \<lparr>imageBase64 = Some (lit ''iVBORw==''), fileName = Some (lit ''Lecture_Notes.png''),
           fileType = Some (lit ''image/png''), mode = Some Mixed\<rparr>
   = (let resp = catch_error (sample_env out) (on_gateway (sample_env out) Mixed out)
      in case body resp of
           NoBody \<Rightarrow> Inl (lit ''Unexpected end of JSON input'')
         | data \<Rightarrow>
             if \<not> response_ok (status resp)
             then Inr (InvokeError
                    (or_default (case data of ErrorJson msg _ \<Rightarrow> Some msg | _ \<Rightarrow> None)
                       (lit ''HTTP '' @ decimal (status resp))))
             else Inr (InvokeData data))"
proof -
  have s: "truthy (Some (lit ''jwt''))" by (simp add: truthy_def lit_def)
  show ?thesis
    by (simp add: invokeOcrProcess_def s deployed_edge_def sample_serve Let_def)
qed

lemma sample_gateway_ok:
  "catch_error (sample_env out)
     (on_gateway (sample_env out) Mixed (FetchResponse 200 (Json (Str (lit ''Hello  world'')))))
   = \<lparr>status = 200,
      body = ResultJson \<lparr>extracted_text = lit ''Hello  world'', processing_time_ms = 850,
            word_count = 2, character_count = 12,
            confidence_note = lit ''High confidence OCR extraction''\<rparr>\<rparr>"
  by (simp add: on_gateway_def catch_error_def response_ok_def trim_def isWhiteSpace_def
        build_result_def filter_Boolean_def sample_env_def lit_def)

lemma sample_gateway_down:
  "catch_error (sample_env out) (on_gateway (sample_env out) Mixed gateway_down)
   = \<lparr>status = 500, body = ErrorJson (lit ''error sending request'') (Some 850)\<rparr>"
  by (simp add: on_gateway_def catch_error_def gateway_down_def sample_env_def)

lemma sample_ocr_ok:
  "processDocument ascii_toLowerCase
     (access_token (sample_browser (FetchResponse 200 (Json (Str (lit ''Hello  world''))))))
     (edge_function (sample_browser (FetchResponse 200 (Json (Str (lit ''Hello  world''))))))
     sample_file (Some Mixed)
   = Inr (ResultJson \<lparr>extracted_text = lit ''Hello  world'', processing_time_ms = 850,
            word_count = 2, character_count = 12,
            confidence_note = lit ''High confidence OCR extraction''\<rparr>)"
  by (simp add: sample_processDocument sample_invoke sample_gateway_ok response_ok_def
        unwrap_invoke_def)

lemma sample_ocr_failed:
  "processDocument ascii_toLowerCase (access_token (sample_browser gateway_down))
     (edge_function (sample_browser gateway_down)) sample_file (Some Mixed)
   = Inl (lit ''error sending request'')"
proof -
  have n: "lit ''error sending request'' \<noteq> []" by (simp add: lit_def)
  show ?thesis
    by (simp add: sample_processDocument sample_invoke sample_gateway_down response_ok_def
          unwrap_invoke_def or_default_def n)
qed

lemma sample_browser_insert: "documents_insert (sample_browser out) = Inr (lit ''doc-1'')"
  by (simp add: sample_browser_def)

theorem document_status_lifecycle_witness:
  "snd (handleOCRProcessing ascii_toLowerCase
          (sample_browser (FetchResponse 200 (Json (Str (lit ''Hello  world'')))))
          (Some (lit ''u1'')) sample_file Mixed initial_page)
     = [sample_insert,
        InsertOcrResult (lit ''doc-1'') (lit ''u1'') (Some (lit ''Hello  world'')) (Some 2)
          (Some 12) (Some 850),
        UpdateDocumentStatus (lit ''doc-1'') Completed]
   \<and> snd (handleOCRProcessing ascii_toLowerCase (sample_browser gateway_down)
          (Some (lit ''u1'')) sample_file Mixed initial_page)
     = [sample_insert, UpdateDocumentStatus (lit ''doc-1'') Failed]
   \<and> length (status_updates
        (snd (handleOCRProcessing ascii_toLowerCase (sample_browser gateway_down)
          (Some (lit ''u1'')) sample_file Mixed initial_page))) \<le> 1"
proof -
  let ?ok = "sample_browser (FetchResponse 200 (Json (Str (lit ''Hello  world''))))"
  let ?ko = "sample_browser gateway_down"
  have a: "snd (handleOCRProcessing ascii_toLowerCase ?ok (Some (lit ''u1'')) sample_file Mixed
                  initial_page)
     = [sample_insert,
        InsertOcrResult (lit ''doc-1'') (lit ''u1'') (Some (lit ''Hello  world'')) (Some 2)
          (Some 12) (Some 850),
        UpdateDocumentStatus (lit ''doc-1'') Completed]"
    by (simp add: handleOCRProcessing_def sample_browser_insert sample_ocr_ok sample_file_fields
          result_field_def sample_insert_def Let_def)
  have b: "snd (handleOCRProcessing ascii_toLowerCase ?ko (Some (lit ''u1'')) sample_file Mixed
                  initial_page)
     = [sample_insert, UpdateDocumentStatus (lit ''doc-1'') Failed]"
    by (simp add: handleOCRProcessing_def sample_browser_insert sample_ocr_failed
          sample_file_fields sample_insert_def Let_def)
  have run: "handleOCRProcessing ascii_toLowerCase ?ko (Some (lit ''u1'')) sample_file Mixed
               initial_page
             = (fst (handleOCRProcessing ascii_toLowerCase ?ko (Some (lit ''u1'')) sample_file
                       Mixed initial_page),
                [sample_insert, UpdateDocumentStatus (lit ''doc-1'') Failed])"
    using b by (metis prod.collapse)
  from document_status_lifecycle [OF run]
  have "length (status_updates [sample_insert, UpdateDocumentStatus (lit ''doc-1'') Failed]) \<le> 1"
    by (rule conjunct2 [THEN conjunct1])
  with a b show ?thesis by simp
qed

text \<open>
  Claim C9. When the delete of a document succeeds, the store holds no OCR result of
  that document and no row of it, and the history list is the old one without the items
  of that id; when the delete fails, the history list and the store are as before.
\<close>

theorem delete_cascades_and_updates_history:
  "(error' = None \<longrightarrow>
      (\<forall>r \<in> set (ocr_results (documents_delete error' ident db)). document_id r \<noteq> ident)
      \<and> (\<forall>d \<in> set (documents (documents_delete error' ident db)). row_id d \<noteq> ident)
      \<and> history (fst (handleHistoryDelete error' ident st))
          = filter (\<lambda>item. item_id item \<noteq> ident) (history st)
      \<and> (\<forall>item \<in> set (history (fst (handleHistoryDelete error' ident st))). item_id item \<noteq> ident))
   \<and> (error' \<noteq> None \<longrightarrow>
      history (fst (handleHistoryDelete error' ident st)) = history st
      \<and> documents_delete error' ident db = db)"
  by (auto simp: handleHistoryDelete_def documents_delete_def delete_document_def Let_def)

lemma sample_page_filtered:
  "filter (\<lambda>item. item_id item \<noteq> lit ''doc-1'') (history sample_page)
             = [sample_item ''doc-2'']"
    by (simp add: sample_page_def sample_item_def lit_def)
lemma sample_page_history:
  "history sample_page = [sample_item ''doc-1'', sample_item ''doc-2'']"
    by (simp add: sample_page_def)
lemma sample_database_deleted:
  "ocr_results (documents_delete None (lit ''doc-1'') sample_database)
     = [\<lparr>document_id = lit ''doc-2'', result_user_id = lit ''u1'', result_text = lit ''Hello''\<rparr>]"
    by (simp add: documents_delete_def delete_document_def sample_database_def lit_def)

theorem delete_cascades_and_updates_history_witness:
  "ocr_results (documents_delete None (lit ''doc-1'') sample_database)
     = [\<lparr>document_id = lit ''doc-2'', result_user_id = lit ''u1'', result_text = lit ''Hello''\<rparr>]
   \<and> history (fst (handleHistoryDelete None (lit ''doc-1'') sample_page))
     = [sample_item ''doc-2'']
   \<and> history (fst (handleHistoryDelete (Some (lit ''permission denied'')) (lit ''doc-1'') sample_page))
     = [sample_item ''doc-1'', sample_item ''doc-2'']
   \<and> documents_delete (Some (lit ''permission denied'')) (lit ''doc-1'') sample_database
     = sample_database"
proof -
  note ok = delete_cascades_and_updates_history
              [of None "lit ''doc-1''" sample_database sample_page]
  note ko = delete_cascades_and_updates_history
              [of "Some (lit ''permission denied'')" "lit ''doc-1''" sample_database sample_page]
  from ok have a: "history (fst (handleHistoryDelete None (lit ''doc-1'') sample_page))
         = filter (\<lambda>item. item_id item \<noteq> lit ''doc-1'') (history sample_page)"
    by blast
  from ko have b: "history (fst (handleHistoryDelete (Some (lit ''permission denied''))
                     (lit ''doc-1'') sample_page)) = history sample_page"
      and c: "documents_delete (Some (lit ''permission denied'')) (lit ''doc-1'') sample_database
                = sample_database"
    by blast+
  show ?thesis
    unfolding a b c sample_database_deleted sample_page_filtered
    by (simp add: sample_page_history)
qed

end
